theory Spec2Isabelle
  imports Complex_Main "HOL-Library.Char_ord" "HOL-Library.List_Lexorder"
begin

section \<open>The placement-sheet converter (scripts/convert-excel-to-json.py)\<close>

text \<open>
  The script reads the sheet \<open>PLACEMENTS\<close> of a workbook, walks the desktop rows 3..13 and
  the mobile rows 19..29, and builds a dictionary with a fixed \<open>publisher\<close> record and an
  \<open>adUnits\<close> dictionary from slot patterns to per-bidder parameter sets.

  Python dictionaries keep insertion order, so they are association lists here. Every
  \<open>raise\<close> of the Python run time that the function can meet is a value \<open>Inl e\<close>.
\<close>

subsection \<open>Cell values\<close>

text \<open>
  What \<open>cell.value\<close> can be for a workbook opened with \<open>data_only=True\<close>: nothing, text, an
  integer, a float, a boolean. A finite float is represented by its exact rational value;
  the two infinities are constructors of their own (a numeric cell whose text is \<open>1e999\<close>
  reads as \<open>inf\<close>; no cell text reads as a NaN). Date-formatted cells are not modelled.
  A character of a \<open>string\<close> stands for the code point of the same number.
\<close>

datatype pyfloat = Finite rat | PosInf | NegInf

datatype cell_value = VNone | VStr string | VInt int | VFloat pyfloat | VBool bool

datatype py_error = KeyError | IndexError | OverflowError

type_synonym row = "cell_value list"
type_synonym sheet = "nat \<Rightarrow> row"
type_synonym workbook = "string \<rightharpoonup> sheet"

type_synonym bidder_params = "(string \<times> cell_value) list"
type_synonym ad_unit_config = "(string \<times> bidder_params) list"

record publisher =
  publisherId :: string
  domain :: string
  defaultBidders :: "string list"

record mapping =
  publisher :: publisher
  adUnits :: "(cell_value \<times> ad_unit_config) list"

subsection \<open>Python primitives used by the script\<close>

text \<open>\<open>str.isspace\<close> on the code points below 256.\<close>

definition isspace :: "char \<Rightarrow> bool" where
  "isspace c = (let n = (of_char c :: nat) in
     (9 \<le> n \<and> n \<le> 13) \<or> (28 \<le> n \<and> n \<le> 32) \<or> n = 133 \<or> n = 160)"

text \<open>\<open>s.strip()\<close>: leading and trailing whitespace removed.\<close>

definition strip :: "string \<Rightarrow> string" where
  "strip s = rev (dropWhile isspace (rev (dropWhile isspace s)))"

text \<open>
  The test of line 69, \<open>value is not None and str(value).strip() != ""\<close>. The text that
  \<open>str\<close> gives for an integer, a float or a boolean is never blank.
\<close>

fun is_present :: "cell_value \<Rightarrow> bool" where
  "is_present VNone = False"
| "is_present (VStr s) = (strip s \<noteq> [])"
| "is_present (VInt n) = True"
| "is_present (VFloat f) = True"
| "is_present (VBool b) = True"

text \<open>\<open>bool(value)\<close>, also the truth value that \<open>not value\<close> negates.\<close>

fun truthy :: "cell_value \<Rightarrow> bool" where
  "truthy VNone = False"
| "truthy (VStr s) = (s \<noteq> [])"
| "truthy (VInt n) = (n \<noteq> 0)"
| "truthy (VFloat (Finite r)) = (r \<noteq> 0)"
| "truthy (VFloat f) = True"
| "truthy (VBool b) = b"

text \<open>\<open>int(value)\<close> of a float: truncation towards zero; it raises on an infinity.\<close>

fun float_to_int :: "pyfloat \<Rightarrow> py_error + int" where
  "float_to_int (Finite r) = Inr (if 0 \<le> r then \<lfloor>r\<rfloor> else \<lceil>r\<rceil>)"
| "float_to_int PosInf = Inl OverflowError"
| "float_to_int NegInf = Inl OverflowError"

text \<open>\<open>xs[i]\<close> for a tuple or list: a negative index counts from the end.\<close>

definition getitem :: "'a list \<Rightarrow> int \<Rightarrow> py_error + 'a" where
  "getitem xs i =
     (if 0 \<le> i \<and> i < int (length xs) then Inr (xs ! nat i)
      else if i < 0 \<and> - int (length xs) \<le> i then Inr (xs ! nat (int (length xs) + i))
      else Inl IndexError)"

text \<open>
  Equality of dictionary keys. Python compares numbers by value across \<open>int\<close>, \<open>float\<close> and
  \<open>bool\<close> (\<open>1 == 1.0 == True\<close>, with equal hashes), and text equals only the same text.
  \<open>key_norm\<close> picks one representative per class.
\<close>

fun key_norm :: "cell_value \<Rightarrow> cell_value" where
  "key_norm (VBool b) = VInt (if b then 1 else 0)"
| "key_norm (VFloat (Finite r)) = (if of_int \<lfloor>r\<rfloor> = r then VInt \<lfloor>r\<rfloor> else VFloat (Finite r))"
| "key_norm v = v"

definition py_eq :: "cell_value \<Rightarrow> cell_value \<Rightarrow> bool" where
  "py_eq a b = (key_norm a = key_norm b)"

text \<open>
  \<open>k in d\<close>, \<open>d[k]\<close> and \<open>d[k] = v\<close> for a dictionary whose keys are compared by \<open>eq\<close>.
\<close>

definition dict_contains :: "('k \<Rightarrow> 'k \<Rightarrow> bool) \<Rightarrow> ('k \<times> 'v) list \<Rightarrow> 'k \<Rightarrow> bool" where
  "dict_contains eq d k = list_ex (\<lambda>kv. eq (fst kv) k) d"

fun dict_get :: "('k \<Rightarrow> 'k \<Rightarrow> bool) \<Rightarrow> ('k \<times> 'v) list \<Rightarrow> 'k \<Rightarrow> py_error + 'v" where
  "dict_get eq [] k = Inl KeyError"
| "dict_get eq ((k', v') # d) k = (if eq k' k then Inr v' else dict_get eq d k)"

fun dict_set :: "('k \<Rightarrow> 'k \<Rightarrow> bool) \<Rightarrow> ('k \<times> 'v) list \<Rightarrow> 'k \<Rightarrow> 'v \<Rightarrow> ('k \<times> 'v) list" where
  "dict_set eq [] k v = [(k, v)]"
| "dict_set eq ((k', v') # d) k v =
     (if eq k' k then (k', v) # d else (k', v') # dict_set eq d k v)"

subsection \<open>The converter\<close>

definition initial_mapping :: mapping where
  "initial_mapping =
     \<lparr> publisher = \<lparr> publisherId = ''icisic-media'', domain = ''totalprosports.com'',
         defaultBidders = [''rubicon'', ''kargo'', ''sovrn'', ''oms'', ''aniview'',
                           ''pubmatic'', ''triplelift''] \<rparr>,
       adUnits = [] \<rparr>"

definition bidder_columns :: "(string \<times> (string \<times> int) list) list" where
  "bidder_columns =
     [(''rubicon'', [(''accountId'', 6), (''siteId'', 7), (''zoneId'', 8),
                     (''bidonmultiformat'', 9)]),
      (''kargo'', [(''placementId'', 10)]),
      (''sovrn'', [(''tagid'', 11)]),
      (''oms'', [(''publisherId'', 12)]),
      (''aniview'', [(''publisherId'', 14), (''channelId'', 15)]),
      (''pubmatic'', [(''publisherId'', 16), (''adSlot'', 17)]),
      (''triplelift'', [(''inventoryCode'', 18)])]"

text \<open>Lines 71 to 74: the coercion of a cell value that is present.\<close>

definition coerce :: "string \<Rightarrow> cell_value \<Rightarrow> py_error + cell_value" where
  "coerce param_name v =
     (case v of
        VFloat f \<Rightarrow>
          (if param_name \<noteq> ''bidonmultiformat''
           then (case float_to_int f of Inl e \<Rightarrow> Inl e | Inr n \<Rightarrow> Inr (VInt n))
           else Inr (VBool (truthy v)))
      | _ \<Rightarrow>
          (if param_name = ''bidonmultiformat'' then Inr (VBool (truthy v)) else Inr v))"

text \<open>
  Lines 67 to 76: the loop over one bidder's parameters, on the pair
  \<open>(bidder_params, has_data)\<close>.
\<close>

fun extract_params ::
  "row \<Rightarrow> (string \<times> int) list \<Rightarrow> bidder_params \<times> bool \<Rightarrow> py_error + (bidder_params \<times> bool)"
where
  "extract_params r [] st = Inr st"
| "extract_params r ((param_name, col_idx) # rest) (bidder_params, has_data) =
     (case getitem r (col_idx - 1) of
        Inl e \<Rightarrow> Inl e
      | Inr v \<Rightarrow>
          (if is_present v
           then (case coerce param_name v of
                   Inl e \<Rightarrow> Inl e
                 | Inr v' \<Rightarrow>
                     extract_params r rest (dict_set (=) bidder_params param_name v', True))
           else extract_params r rest (bidder_params, has_data)))"

text \<open>Lines 63 to 79: the loop over the bidders, on \<open>ad_unit_config\<close>.\<close>

fun extract_bidders ::
  "row \<Rightarrow> (string \<times> (string \<times> int) list) list \<Rightarrow> ad_unit_config \<Rightarrow> py_error + ad_unit_config"
where
  "extract_bidders r [] ad_unit_config = Inr ad_unit_config"
| "extract_bidders r ((bidder, columns) # rest) ad_unit_config =
     (case extract_params r columns ([], False) of
        Inl e \<Rightarrow> Inl e
      | Inr (bidder_params, has_data) \<Rightarrow>
          extract_bidders r rest
            (if has_data then dict_set (=) ad_unit_config bidder bidder_params
             else ad_unit_config))"

text \<open>Lines 50 to 82: the body of the row loop, on \<open>mapping\<close>.\<close>

definition process_row :: "row \<Rightarrow> mapping \<Rightarrow> py_error + mapping" where
  "process_row r m =
     (case getitem r 0 of
        Inl e \<Rightarrow> Inl e
      | Inr slot_pattern \<Rightarrow>
          (if \<not> truthy slot_pattern \<or> slot_pattern = VStr ''Slot Pattern'' then Inr m
           else if dict_contains py_eq (adUnits m) slot_pattern then Inr m
           else (case extract_bidders r bidder_columns [] of
                   Inl e \<Rightarrow> Inl e
                 | Inr ad_unit_config \<Rightarrow>
                     (if ad_unit_config \<noteq> []
                      then Inr (m\<lparr>adUnits := dict_set py_eq (adUnits m) slot_pattern ad_unit_config\<rparr>)
                      else Inr m))))"

definition row_indices :: "nat list" where
  "row_indices = [3..<14] @ [19..<30]"

fun process_rows :: "sheet \<Rightarrow> nat list \<Rightarrow> mapping \<Rightarrow> py_error + mapping" where
  "process_rows sh [] m = Inr m"
| "process_rows sh (row_idx # rest) m =
     (case process_row (sh row_idx) m of
        Inl e \<Rightarrow> Inl e
      | Inr m' \<Rightarrow> process_rows sh rest m')"

text \<open>
  The function itself, on a workbook that \<open>load_workbook\<close> has read: \<open>wb['PLACEMENTS']\<close>
  raises \<open>KeyError\<close> when there is no such sheet.
\<close>

definition convert_excel_to_json :: "workbook \<Rightarrow> py_error + mapping" where
  "convert_excel_to_json wb =
     (case wb ''PLACEMENTS'' of
        None \<Rightarrow> Inl KeyError
      | Some sh \<Rightarrow> process_rows sh row_indices initial_mapping)"

subsection \<open>The script's main block\<close>

text \<open>
  Lines 86 to 107. What the block does to the outside is a list of events, in order: the
  JSON file written, then the printed lines. The result is that list together with the
  exception that ended the run, if one did.
\<close>

datatype event =
    WroteJson mapping
  | PrintedGenerated
  | PrintedCount nat
  | PrintedBidders "string list"
  | PrintedSampleHeader
  | PrintedSlot cell_value
  | PrintedBidder string bidder_params

definition all_bidders :: "mapping \<Rightarrow> string list" where
  "all_bidders m = sort (remdups (concat (map (\<lambda>ku. map fst (snd ku)) (adUnits m))))"

definition main :: "workbook \<Rightarrow> event list \<times> py_error option" where
  "main wb =
     (case convert_excel_to_json wb of
        Inl e \<Rightarrow> ([], Some e)
      | Inr m \<Rightarrow>
          (let out = [WroteJson m, PrintedGenerated, PrintedCount (length (adUnits m)),
                      PrintedBidders (all_bidders m), PrintedSampleHeader]
           in case getitem (map fst (adUnits m)) 0 of
                Inl e \<Rightarrow> (out, Some e)
              | Inr first_slot \<Rightarrow>
                  (case dict_get py_eq (adUnits m) first_slot of
                     Inl e \<Rightarrow> (out @ [PrintedSlot first_slot], Some e)
                   | Inr ad_unit \<Rightarrow>
                       (out @ [PrintedSlot first_slot]
                            @ map (\<lambda>bp. PrintedBidder (fst bp) (snd bp)) ad_unit,
                        None))))"

section \<open>Properties\<close>

subsection \<open>A workbook without the sheet\<close>

text \<open>
  C8. When the workbook has no sheet named \<open>PLACEMENTS\<close>, the converter ends with the
  \<open>KeyError\<close> that the sheet selection raises: nothing catches it and no mapping is
  returned.
\<close>

theorem missing_sheet_raises:
  assumes "wb ''PLACEMENTS'' = None"
  shows "convert_excel_to_json wb = Inl KeyError"
  using assms by (simp add: convert_excel_to_json_def)

theorem missing_sheet_raises_witness:
  "(Map.empty :: workbook) ''PLACEMENTS'' = None
   \<and> convert_excel_to_json Map.empty = Inl KeyError"
  using missing_sheet_raises [of Map.empty] by simp

end
